theory Spec2Isabelle
  imports Main "HOL-Library.Word"
begin

section \<open>The function header green node (FunctionHeaderSyntax)\<close>

text \<open>
  The language service keeps its syntax tree as immutable green nodes. The sources hold one
  concrete green node class, \<open>FunctionHeaderSyntax\<close>; its base class \<open>GreenNode\<close>, the
  classes of its slots (\<open>TypeIdentifierSyntax\<close>, \<open>SyntaxToken\<close>, \<open>ExpressionSyntax\<close>,
  \<open>FunctionParameterSyntax\<close>), the red node class \<open>SyntaxNode\<close> and the visitor interfaces
  are declared elsewhere. The slot classes and the red node class are therefore type
  parameters \<open>'ti\<close>, \<open>'tok\<close>, \<open>'ex\<close>, \<open>'par\<close> and \<open>'red\<close>.

  A C# reference may be null, and the class checks none of its arguments, so every slot is
  an \<open>option\<close> with \<open>None\<close> for null.
\<close>

datatype Exception =
    NotImplementedException
  | NullReferenceException
  | OtherException string

text \<open>
  The \<open>SyntaxKind\<close> enumeration is declared outside the sources. Only its member
  \<open>FunctionHeader\<close> is named there; \<open>OtherKind\<close> stands for every other member.
\<close>

datatype SyntaxKind = FunctionHeader | OtherKind nat

record ('ti, 'tok, 'ex, 'par) FunctionHeaderSyntax =
  TypeIdentifier :: "'ti option"
  FunctionOrEventKeyword :: "'tok option"
  Identifier :: "'ex option"
  OpenParen :: "'tok option"
  Parameters :: "'par option list option"
  CloseParen :: "'tok option"

text \<open>
  The constructor stores its six arguments and does nothing else. Its result is a sum so that
  the absence of a failing branch is visible in the model.
\<close>

definition FunctionHeaderSyntax_ctor ::
  "'ti option \<Rightarrow> 'tok option \<Rightarrow> 'ex option \<Rightarrow> 'tok option \<Rightarrow> 'par option list option \<Rightarrow>
   'tok option \<Rightarrow> Exception + ('ti, 'tok, 'ex, 'par) FunctionHeaderSyntax" where
  "FunctionHeaderSyntax_ctor typeIdentifier functionorEventKeyword identifier openParen
     parameters closeParen =
     Inr \<lparr> TypeIdentifier = typeIdentifier,
           FunctionOrEventKeyword = functionorEventKeyword,
           Identifier = identifier,
           OpenParen = openParen,
           Parameters = parameters,
           CloseParen = closeParen \<rparr>"

text \<open>\<open>Kind\<close> is an expression-bodied property: it reads no field.\<close>

definition Kind :: "('ti, 'tok, 'ex, 'par) FunctionHeaderSyntax \<Rightarrow> SyntaxKind" where
  "Kind node = FunctionHeader"

text \<open>
  \<open>CreateRed\<close> has the parent red node (nullable) and the 32-bit position as arguments and
  a red node as its declared result. Its body is a single \<open>throw\<close>.
\<close>

definition CreateRed ::
  "('ti, 'tok, 'ex, 'par) FunctionHeaderSyntax \<Rightarrow> 'red option \<Rightarrow> 32 word \<Rightarrow> Exception + 'red" where
  "CreateRed node parent position = Inl NotImplementedException"

subsection \<open>Children enumeration\<close>

text \<open>
  The children are upcast to \<open>GreenNode\<close>. The upcast is the injection of a slot class into
  the sum of the slot classes.
\<close>

datatype ('ti, 'tok, 'ex, 'par) GreenNode =
    TypeIdentifierNode 'ti
  | TokenNode 'tok
  | ExpressionNode 'ex
  | FunctionParameterNode 'par

text \<open>
  \<open>ChildrenInternal\<close> is an iterator block. An iterator yields items one at a time and ends
  either normally or with an exception, after the items already yielded.
\<close>

datatype 'a Enumeration =
    Done
  | Yield 'a "'a Enumeration"
  | Throw Exception

text \<open>The \<open>foreach\<close> over the parameter list, followed by the rest of the iterator.\<close>

fun foreach_yield ::
  "'par option list \<Rightarrow> ('ti, 'tok, 'ex, 'par) GreenNode option Enumeration \<Rightarrow>
   ('ti, 'tok, 'ex, 'par) GreenNode option Enumeration" where
  "foreach_yield [] rest = rest"
| "foreach_yield (parameter # parameters) rest =
     Yield (map_option FunctionParameterNode parameter) (foreach_yield parameters rest)"

definition ChildrenInternal ::
  "('ti, 'tok, 'ex, 'par) FunctionHeaderSyntax \<Rightarrow>
   ('ti, 'tok, 'ex, 'par) GreenNode option Enumeration" where
  "ChildrenInternal node =
     Yield (map_option TypeIdentifierNode (TypeIdentifier node))
    (Yield (map_option TokenNode (FunctionOrEventKeyword node))
    (Yield (map_option ExpressionNode (Identifier node))
    (Yield (map_option TokenNode (OpenParen node))
    (case Parameters node of
       None \<Rightarrow> Throw NullReferenceException
     | Some parameters \<Rightarrow>
         foreach_yield parameters
           (Yield (map_option TokenNode (CloseParen node)) Done)))))"

text \<open>Running an enumeration to its end: the list of all items, or the exception.\<close>

fun ToList :: "'a Enumeration \<Rightarrow> Exception + 'a list" where
  "ToList Done = Inr []"
| "ToList (Yield x rest) = (case ToList rest of Inl e \<Rightarrow> Inl e | Inr xs \<Rightarrow> Inr (x # xs))"
| "ToList (Throw e) = Inl e"

subsection \<open>Visitor dispatch\<close>

text \<open>
  The interfaces \<open>IGreenNodeVisitor\<close> and \<open>IGreenNodeVisitor<T>\<close> are declared outside the
  sources. Each has one \<open>Visit\<close> overload per concrete green node class; the call
  \<open>visitor.Visit(this)\<close> inside \<open>FunctionHeaderSyntax\<close> is bound to the overload taking a
  \<open>FunctionHeaderSyntax\<close>. A visitor is a record of its overloads: the one for the function
  header and, for every other node class, the one selected by that class's kind.

  A handler of the effecting interface runs on the visitor's own state \<open>'s\<close> and leaves a new
  state or an exception. A handler of the generic interface also returns a \<open>'t\<close>.
\<close>

record ('ti, 'tok, 'ex, 'par, 's) IGreenNodeVisitor =
  Visit_FunctionHeaderSyntax :: "('ti, 'tok, 'ex, 'par) FunctionHeaderSyntax \<Rightarrow> 's \<Rightarrow> Exception + 's"
  Visit_other :: "SyntaxKind \<Rightarrow> ('ti, 'tok, 'ex, 'par) GreenNode \<Rightarrow> 's \<Rightarrow> Exception + 's"

record ('ti, 'tok, 'ex, 'par, 's, 't) IGreenNodeVisitorT =
  VisitT_FunctionHeaderSyntax ::
    "('ti, 'tok, 'ex, 'par) FunctionHeaderSyntax \<Rightarrow> 's \<Rightarrow> Exception + ('t \<times> 's)"
  VisitT_other :: "SyntaxKind \<Rightarrow> ('ti, 'tok, 'ex, 'par) GreenNode \<Rightarrow> 's \<Rightarrow> Exception + ('t \<times> 's)"

text \<open>The visitor argument is a reference: calling a method on null raises.\<close>

definition Accept ::
  "('ti, 'tok, 'ex, 'par) FunctionHeaderSyntax \<Rightarrow>
   ('ti, 'tok, 'ex, 'par, 's) IGreenNodeVisitor option \<Rightarrow> 's \<Rightarrow> Exception + 's" where
  "Accept node visitor s =
     (case visitor of
        None \<Rightarrow> Inl NullReferenceException
      | Some v \<Rightarrow> Visit_FunctionHeaderSyntax v node s)"

definition AcceptT ::
  "('ti, 'tok, 'ex, 'par) FunctionHeaderSyntax \<Rightarrow>
   ('ti, 'tok, 'ex, 'par, 's, 't) IGreenNodeVisitorT option \<Rightarrow> 's \<Rightarrow> Exception + ('t \<times> 's)" where
  "AcceptT node visitor s =
     (case visitor of
        None \<Rightarrow> Inl NullReferenceException
      | Some v \<Rightarrow> VisitT_FunctionHeaderSyntax v node s)"

text \<open>
  Two visitors used to observe the dispatch. \<open>recording\<close> wraps an effecting visitor: its
  state carries the list of the overloads invoked so far, each named by the kind of node it
  handles. \<open>discarding\<close> is the effecting visitor that runs the handlers of a generic visitor
  and drops their results.
\<close>

definition recording ::
  "('ti, 'tok, 'ex, 'par, 's) IGreenNodeVisitor \<Rightarrow>
   ('ti, 'tok, 'ex, 'par, 's \<times> SyntaxKind list) IGreenNodeVisitor" where
  "recording v =
     \<lparr> Visit_FunctionHeaderSyntax = (\<lambda>node (s, calls).
         case Visit_FunctionHeaderSyntax v node s of
           Inl e \<Rightarrow> Inl e
         | Inr s' \<Rightarrow> Inr (s', calls @ [FunctionHeader])),
       Visit_other = (\<lambda>kind node (s, calls).
         case Visit_other v kind node s of
           Inl e \<Rightarrow> Inl e
         | Inr s' \<Rightarrow> Inr (s', calls @ [kind])) \<rparr>"

definition discarding ::
  "('ti, 'tok, 'ex, 'par, 's, 't) IGreenNodeVisitorT \<Rightarrow>
   ('ti, 'tok, 'ex, 'par, 's) IGreenNodeVisitor" where
  "discarding v =
     \<lparr> Visit_FunctionHeaderSyntax = (\<lambda>node s. map_sum id snd (VisitT_FunctionHeaderSyntax v node s)),
       Visit_other = (\<lambda>kind node s. map_sum id snd (VisitT_other v kind node s)) \<rparr>"

section \<open>The green tree and its widths\<close>

text \<open>
  Modelled from the spec: the green node base class and the token class, which hold the
  width of a node, are missing from the sources (\<open>GreenNode\<close> is only inherited from there,
  \<open>SyntaxToken\<close> only used as a slot type). The spec gives a token its kind and the exact
  source text it covers, trivia included, with a width equal to the length of that text; it
  gives a green node a kind, an ordered sequence of children and a width that is computed
  once, when the node is built, as the sum of the children's widths, and cached.
\<close>

datatype Green =
    GreenToken SyntaxKind string
  | GreenInner SyntaxKind "Green list" nat

fun width :: "Green \<Rightarrow> nat" where
  "width (GreenToken kind text) = length text"
| "width (GreenInner kind children cached) = cached"

definition make_green :: "SyntaxKind \<Rightarrow> Green list \<Rightarrow> Green" where
  "make_green kind children = GreenInner kind children (sum_list (map width children))"

text \<open>
  Modelled from the spec: the reparse engine is missing from the sources. The spec has it
  replace the affected subtree and rebuild only the chain of ancestors above it, each ancestor
  as a new node spliced into a new parent up to the root, with every sibling subtree reused
  as it is. \<open>splice\<close> replaces the subtree at a path of child indices; a path that leaves the
  tree changes nothing.
\<close>

fun splice :: "nat list \<Rightarrow> Green \<Rightarrow> Green \<Rightarrow> Green" where
  "splice [] new old = new"
| "splice (i # path) new old =
     (case old of
        GreenToken kind text \<Rightarrow> old
      | GreenInner kind children cached \<Rightarrow>
          if i < length children
          then make_green kind (children[i := splice path new (children ! i)])
          else old)"

text \<open>The text a green tree covers: its tokens' texts in lexical order.\<close>

fun full_text :: "Green \<Rightarrow> string" where
  "full_text (GreenToken kind text) = text"
| "full_text (GreenInner kind children cached) = concat (map full_text children)"

text \<open>The width equation, at a node and at every node below it.\<close>

fun width_ok :: "Green \<Rightarrow> bool" where
  "width_ok (GreenToken kind text) = True"
| "width_ok (GreenInner kind children cached) =
     (cached = sum_list (map width children) \<and> list_all width_ok children)"

text \<open>
  The green trees that the operations of the spec can produce: a token; a node constructed
  from trees produced before; a subtree of such a tree, taken to be shared with another tree
  version; and the result of a reparse.
\<close>

inductive produced :: "Green \<Rightarrow> bool" where
  token: "produced (GreenToken kind text)"
| construct: "(\<forall>c \<in> set children. produced c) \<Longrightarrow> produced (make_green kind children)"
| share: "produced (GreenInner kind children cached) \<Longrightarrow> c \<in> set children \<Longrightarrow> produced c"
| reparse: "produced old \<Longrightarrow> produced new \<Longrightarrow> produced (splice path new old)"

section \<open>The debug adapter descriptor factory and the path resolver\<close>

subsection \<open>Values\<close>

text \<open>
  \<open>PapyrusGame\<close> is declared outside the sources; the exhaustive switches of the path
  resolver name its three members.
\<close>

datatype PapyrusGame = fallout4 | skyrim | skyrimSpecialEdition

text \<open>
  \<open>DebugSupportInstallState\<close> is declared outside the sources. The readiness flow names four
  of its members; \<open>installed\<close> and \<open>installedAsMod\<close> stand for the members it does not name.
\<close>

datatype DebugSupportInstallState =
    notInstalled
  | gameDisabled
  | gameMissing
  | installed
  | installedAsMod
  | incorrectVersion

text \<open>A thrown JavaScript value: \<open>new Error(message)\<close>, or the reason of a rejected promise.\<close>

datatype JsError = Error string

record DebugAdapterExecutable =
  command :: string
  args :: "string list"

definition noopExecutable :: DebugAdapterExecutable where
  "noopExecutable = \<lparr> command = ''node'', args = [''-e'', [CHR 0x22, CHR 0x22]] \<rparr>"

text \<open>
  The debug session (\<open>IPapyrusDebugSession\<close>, declared outside the sources) with the four
  configuration properties the factory touches. A property that may be undefined is an
  \<open>option\<close>; an unset \<open>noop\<close> reads as \<open>False\<close>.
\<close>

record DebugConfiguration =
  game :: PapyrusGame
  port :: "int option"
  projectPath :: "string option"
  noop :: bool

record IPapyrusDebugSession =
  configuration :: DebugConfiguration

record IDebugToolArguments =
  port :: "int option"
  projectPath :: "string option"
  defaultScriptSourceFolder :: "string option"
  defaultAdditionalImports :: "string option"
  creationKitInstallPath :: string
  relativeIniPaths :: "string list"
  clientProcessId :: int
  remotesInstallPath :: string

text \<open>The parts of the extension configuration and of the Creation Kit information read here.\<close>

record IGameConfig =
  installPath :: string
  ignoreDebuggerVersion :: bool
  creationKitIniFiles :: "string list"

record PapyrusSection =
  sScriptSourceFolder :: "string option"
  sAdditionalImports :: "string option"

record ICreationKitInfo =
  resolvedInstallPath :: "string option"
  Papyrus :: "PapyrusSection option"

record RegistryItem =
  regValue :: string

subsection \<open>The host\<close>

text \<open>
  Everything the two source files call and do not define: the helpers of \<open>PapyrusGame\<close> and
  \<open>Utilities\<close>, the injected services, the editor API, the file system, the registry and the
  process. A call that returns a promise has an outcome in \<open>JsError + 'a\<close>, \<open>Inl\<close> for a
  rejection. \<open>exists\<close> is the promisified \<open>fs.exists\<close>, which resolves to a boolean and never
  rejects. \<open>gameName\<close> is the text of a game in a template string. \<open>registry_get\<close> takes the key
  and the name of the entry read. The answers of the host do not change during one call.
\<close>

record Host =
  gameName :: "PapyrusGame \<Rightarrow> string"
  getDisplayNameForGame :: "PapyrusGame \<Rightarrow> string"
  getShortDisplayNameForGame :: "PapyrusGame \<Rightarrow> string"
  getScriptExtenderName :: "PapyrusGame \<Rightarrow> string"
  getScriptExtenderUrl :: "PapyrusGame \<Rightarrow> string"
  toCommandLineArgs :: "IDebugToolArguments \<Rightarrow> string list"
  getGameIsRunning :: "PapyrusGame \<Rightarrow> JsError + bool"
  inDevelopmentEnvironment :: bool
  getInstallState :: "PapyrusGame \<Rightarrow> JsError + DebugSupportInstallState"
  config :: "JsError + (PapyrusGame \<Rightarrow> IGameConfig option)"
  infos :: "PapyrusGame \<Rightarrow> JsError + ICreationKitInfo"
  getLanguageClientHost :: "PapyrusGame \<Rightarrow> JsError + bool"
  showWarningMessage :: "string \<Rightarrow> string list \<Rightarrow> JsError + string option"
  showInformationMessage :: "string \<Rightarrow> string list \<Rightarrow> JsError + string option"
  asAbsolutePath :: "string \<Rightarrow> string"
  path_join :: "string list \<Rightarrow> string"
  exists :: "string \<Rightarrow> bool"
  registry_get :: "string \<Rightarrow> string \<Rightarrow> JsError + RegistryItem"
  process_arch :: string
  VSCODE_PID :: int

subsection \<open>Asynchronous functions\<close>

text \<open>
  An \<open>async\<close> function runs its awaits one after the other. It is a function from the list of
  the host calls made so far to its outcome (the thrown error or the returned value) and the
  extended list.
\<close>

datatype Event =
    GetInstallState PapyrusGame
  | ReadConfig
  | ReadCreationKitInfo PapyrusGame
  | ShowWarningMessage string "string list"
  | ShowInformationMessage string "string list"
  | ExecuteCommand string
  | OpenExternal string
  | ShowGameDisabledMessage PapyrusGame
  | ShowGameMissingMessage PapyrusGame
  | GetGameIsRunning PapyrusGame
  | GetLanguageClientHost PapyrusGame
  | AppendLine string
  | Exists string
  | RegistryGet string string

type_synonym 'a Async = "Event list \<Rightarrow> (JsError + 'a) \<times> Event list"

definition resolve :: "'a \<Rightarrow> 'a Async" where
  "resolve x = (\<lambda>t. (Inr x, t))"

definition reject :: "JsError \<Rightarrow> 'a Async" where
  "reject e = (\<lambda>t. (Inl e, t))"

definition await :: "'a Async \<Rightarrow> ('a \<Rightarrow> 'b Async) \<Rightarrow> 'b Async" where
  "await m f = (\<lambda>t. case m t of (Inl e, t') \<Rightarrow> (Inl e, t') | (Inr x, t') \<Rightarrow> f x t')"

definition call :: "Event \<Rightarrow> JsError + 'a \<Rightarrow> 'a Async" where
  "call ev outcome = (\<lambda>t. (outcome, t @ [ev]))"

definition try_catch :: "'a Async \<Rightarrow> (JsError \<Rightarrow> 'a Async) \<Rightarrow> 'a Async" where
  "try_catch m handler = (\<lambda>t. case m t of (Inl e, t') \<Rightarrow> handler e t' | (Inr x, t') \<Rightarrow> (Inr x, t'))"

text \<open>\<open>Array.prototype.join\<close>.\<close>

fun join :: "string \<Rightarrow> string list \<Rightarrow> string" where
  "join sep [] = []"
| "join sep [x] = x"
| "join sep (x # y # ys) = x @ sep @ join sep (y # ys)"

subsection \<open>PathResolver.ts\<close>

definition getToolGameName :: "PapyrusGame \<Rightarrow> string" where
  "getToolGameName g =
     (case g of
        fallout4 \<Rightarrow> ''Fallout4''
      | skyrim \<Rightarrow> ''Skyrim''
      | skyrimSpecialEdition \<Rightarrow> ''Skyrim'')"

definition getDebugToolPath :: "Host \<Rightarrow> PapyrusGame \<Rightarrow> string" where
  "getDebugToolPath h g =
     (let toolGameName = getToolGameName g
      in asAbsolutePath h
           (''./debug-bin/Debug/net472/DarkId.Papyrus.DebugAdapterProxy.'' @ toolGameName @ ''/'' @
            ''DarkId.Papyrus.DebugAdapterProxy.'' @ toolGameName @ ''.exe''))"

definition getPyroDirPath :: "Host \<Rightarrow> string" where
  "getPyroDirPath h = asAbsolutePath h ''./pyro''"

definition getPyroRemPath :: "Host \<Rightarrow> string" where
  "getPyroRemPath h = path_join h [getPyroDirPath h, ''remote'']"

definition getRegistryKeyForGame :: "PapyrusGame \<Rightarrow> string" where
  "getRegistryKeyForGame g =
     (case g of
        fallout4 \<Rightarrow> ''Fallout4''
      | skyrim \<Rightarrow> ''Skyrim''
      | skyrimSpecialEdition \<Rightarrow> ''Skyrim Special Edition'')"

text \<open>
  The key handed to the registry client. Building the client reads nothing: the registry is
  read by its \<open>get\<close> only.
\<close>

definition registryKey :: "Host \<Rightarrow> PapyrusGame \<Rightarrow> string" where
  "registryKey h g =
     [CHR 0x5C] @ ''SOFTWARE'' @ [CHR 0x5C] @
     (if process_arch h = ''x64'' then ''WOW6432Node'' @ [CHR 0x5C] else []) @
     ''Bethesda Softworks'' @ [CHR 0x5C] @ getRegistryKeyForGame g"

text \<open>
  The \<open>try\<close> block of \<open>resolveInstallPath\<close>. Its result is \<open>Some\<close> of what the function
  returns from inside the block, and \<open>None\<close> when control leaves the block at its end.
\<close>

definition registryInstallPath :: "Host \<Rightarrow> string \<Rightarrow> string option option Async" where
  "registryInstallPath h key =
     await (call (RegistryGet key ''installed path'') (registry_get h key ''installed path''))
       (\<lambda>item.
     await (call (Exists (regValue item)) (Inr (exists h (regValue item))))
       (\<lambda>found.
     if found then resolve (Some (Some (regValue item))) else resolve None))"

definition resolveInstallPath :: "Host \<Rightarrow> PapyrusGame \<Rightarrow> string \<Rightarrow> string option Async" where
  "resolveInstallPath h g installDir =
     await (call (Exists installDir) (Inr (exists h installDir)))
       (\<lambda>found.
     if found then resolve (Some installDir)
     else
       await (try_catch (registryInstallPath h (registryKey h g)) (\<lambda>_. resolve None))
         (\<lambda>returned.
       case returned of
         Some path \<Rightarrow> resolve path
       | None \<Rightarrow>
           if inDevelopmentEnvironment h \<and> g \<noteq> skyrim
           then resolve (Some (asAbsolutePath h ''../../dependencies/compilers''))
           else resolve None))"

subsection \<open>The debug adapter descriptor factory\<close>

definition getDefaultPortForGame :: "PapyrusGame \<Rightarrow> int" where
  "getDefaultPortForGame g = (if g = fallout4 then 2077 else 43201)"

text \<open>Reading a property of \<open>undefined\<close> throws a \<open>TypeError\<close>.\<close>

definition property_of :: "'a option \<Rightarrow> 'a Async" where
  "property_of x =
     (case x of
        None \<Rightarrow> reject (Error ''TypeError: Cannot read properties of undefined'')
      | Some v \<Rightarrow> resolve v)"

text \<open>
  The \<open>switch\<close> of \<open>ensureReadyFlow\<close> over the install state. Its result is \<open>Some b\<close> where the
  function returns \<open>b\<close> from inside the switch and \<open>None\<close> where control goes on to the
  statement after the switch (a \<open>break\<close>, or no matching case). The calls of
  \<open>commands.executeCommand\<close>, \<open>env.openExternal\<close> and of the two message helpers are not
  awaited: they are recorded and their outcome is not looked at.
\<close>

definition installStateSwitch ::
  "Host \<Rightarrow> PapyrusGame \<Rightarrow> DebugSupportInstallState \<Rightarrow> bool option Async" where
  "installStateSwitch h g installState =
     (case installState of
        incorrectVersion \<Rightarrow>
          await (call ReadConfig (config h))
            (\<lambda>cfg.
          await (property_of (cfg g))
            (\<lambda>gameConfig.
          if ignoreDebuggerVersion gameConfig then resolve None
          else
            let message = ''The Papyrus debugging support '' @ getScriptExtenderName h g @
                          '' plugin needs to be updated.'';
                items = [''Update'', ''Remind Me Later'', ''Cancel'']
            in await (call (ShowWarningMessage message items) (showWarningMessage h message items))
                 (\<lambda>selectedUpdateOption.
               if selectedUpdateOption = Some ''Update''
               then await (call (ExecuteCommand
                                   (''papyrus.'' @ gameName h g @ ''.installDebuggerSupport''))
                             (Inr ()))
                      (\<lambda>_. resolve (Some False))
               else if selectedUpdateOption = Some ''Cancel'' \<or> selectedUpdateOption = None
               then resolve (Some False)
               else resolve None)))
      | notInstalled \<Rightarrow>
          let getExtenderOption = ''Get '' @ getScriptExtenderName h g;
              installOption = ''Install '' @ getScriptExtenderName h g @ '' Plugin'';
              message = ''Papyrus debugging support requires a plugin for '' @
                        getDisplayNameForGame h g @ '' Script Extender ('' @
                        getScriptExtenderName h g @
                        '') to be installed. After installation has completed, launch '' @
                        getShortDisplayNameForGame h g @ '' with '' @ getScriptExtenderName h g @
                        '' and wait until the main menu has loaded.'';
              items = [getExtenderOption, installOption, ''Cancel'']
          in await (call (ShowInformationMessage message items)
                      (showInformationMessage h message items))
               (\<lambda>selectedInstallOption.
             await (if selectedInstallOption = Some installOption
                    then call (ExecuteCommand
                                 (''papyrus.'' @ gameName h g @ ''.installDebuggerSupport''))
                           (Inr ())
                    else if selectedInstallOption = Some getExtenderOption
                    then call (OpenExternal (getScriptExtenderUrl h g)) (Inr ())
                    else resolve ())
               (\<lambda>_. resolve (Some False)))
      | gameDisabled \<Rightarrow>
          await (call (ShowGameDisabledMessage g) (Inr ())) (\<lambda>_. resolve (Some False))
      | gameMissing \<Rightarrow>
          await (call (ShowGameMissingMessage g) (Inr ())) (\<lambda>_. resolve (Some False))
      | installed \<Rightarrow> resolve None
      | installedAsMod \<Rightarrow> resolve None)"

definition ensureReadyFlow :: "Host \<Rightarrow> PapyrusGame \<Rightarrow> bool Async" where
  "ensureReadyFlow h g =
     await (call (GetInstallState g) (getInstallState h g))
       (\<lambda>installState.
     await (installStateSwitch h g installState)
       (\<lambda>returned.
     case returned of
       Some b \<Rightarrow> resolve b
     | None \<Rightarrow>
         await (call (GetGameIsRunning g) (getGameIsRunning h g))
           (\<lambda>running.
         if \<not> running
         then
           let message = ''Make sure that '' @ getDisplayNameForGame h g @
                         '' is running and is either in-game or at the main menu.'';
               items = [''Continue'', ''Cancel'']
           in await (call (ShowWarningMessage message items) (showWarningMessage h message items))
                (\<lambda>selectedGameRunningOption.
              if selectedGameRunningOption \<noteq> Some ''Continue'' then resolve False
              else resolve True)
         else resolve True)))"

text \<open>
  The part of \<open>createDebugAdapterDescriptor\<close> after the readiness flow has accepted: it
  launches the real debug tool. In JavaScript \<open>a || b\<close> is \<open>b\<close> when \<open>a\<close> is undefined or
  \<open>0\<close>, and \<open>!s\<close> holds of \<open>null\<close> and of the empty string.
\<close>

definition launchDebugTool ::
  "Host \<Rightarrow> IPapyrusDebugSession \<Rightarrow> PapyrusGame \<Rightarrow> DebugAdapterExecutable Async" where
  "launchDebugTool h session g =
     await (call ReadConfig (config h))
       (\<lambda>cfg.
     await (call (ReadCreationKitInfo g) (infos h g))
       (\<lambda>creationKitInfo.
     case resolvedInstallPath creationKitInfo of
       None \<Rightarrow>
         reject (Error (''Creation Kit install path for '' @ getDisplayNameForGame h g @
                        '' is not configured.''))
     | Some installDir \<Rightarrow>
         if installDir = []
         then reject (Error (''Creation Kit install path for '' @ getDisplayNameForGame h g @
                             '' is not configured.''))
         else
           await (property_of (cfg g))
             (\<lambda>gameConfig.
           let toolArguments =
                 \<lparr> IDebugToolArguments.port =
                     (case DebugConfiguration.port (configuration session) of
                        None \<Rightarrow> Some (getDefaultPortForGame g)
                      | Some p \<Rightarrow> if p = 0 then Some (getDefaultPortForGame g) else Some p),
                   IDebugToolArguments.projectPath =
                     DebugConfiguration.projectPath (configuration session),
                   defaultScriptSourceFolder =
                     (case Papyrus creationKitInfo of
                        None \<Rightarrow> None
                      | Some section \<Rightarrow> sScriptSourceFolder section),
                   defaultAdditionalImports =
                     (case Papyrus creationKitInfo of
                        None \<Rightarrow> None
                      | Some section \<Rightarrow> sAdditionalImports section),
                   creationKitInstallPath = installDir,
                   relativeIniPaths = creationKitIniFiles gameConfig,
                   clientProcessId = VSCODE_PID h,
                   remotesInstallPath = getPyroRemPath h \<rparr>;
               toolPath = getDebugToolPath h g;
               commandLineArgs = toCommandLineArgs h toolArguments
           in await (call (GetLanguageClientHost (game (configuration session)))
                       (getLanguageClientHost h (game (configuration session))))
                (\<lambda>outputChannel.
              await (if outputChannel
                     then call (AppendLine (''Debug session: Launching debug adapter client: '' @
                                  toolPath @ '' '' @ join '' '' commandLineArgs))
                            (Inr ())
                     else resolve ())
                (\<lambda>_. resolve \<lparr> command = toolPath, args = commandLineArgs \<rparr>)))))"

text \<open>
  \<open>createDebugAdapterDescriptor\<close> returns the descriptor together with the session as the
  call leaves it; the only write to the session is on the path that returns the no-op
  executable, so a call that throws leaves the session as it was.
\<close>

definition createDebugAdapterDescriptor ::
  "Host \<Rightarrow> IPapyrusDebugSession \<Rightarrow> (DebugAdapterExecutable \<times> IPapyrusDebugSession) Async" where
  "createDebugAdapterDescriptor h session =
     (let g = game (configuration session)
      in if g \<noteq> fallout4 \<and> g \<noteq> skyrimSpecialEdition
         then reject (Error ([CHR 0x27] @ gameName h g @ [CHR 0x27] @
                              '' is not supported by the Papyrus debugger.''))
         else
           await (ensureReadyFlow h g)
             (\<lambda>ready.
           if \<not> ready
           then resolve (noopExecutable,
                         session\<lparr> configuration := (configuration session)\<lparr> noop := True \<rparr> \<rparr>)
           else await (launchDebugTool h session g) (\<lambda>descriptor. resolve (descriptor, session))))"

subsection \<open>A host to run the functions on\<close>

text \<open>
  A concrete host: the debugger plugin is not installed, every dialog is dismissed, the
  registry has no entry for any game, and one directory exists on disk.
\<close>

definition exampleHost :: Host where
  "exampleHost =
     \<lparr> gameName = (\<lambda>g. case g of fallout4 \<Rightarrow> ''fallout4'' | skyrim \<Rightarrow> ''skyrim''
                        | skyrimSpecialEdition \<Rightarrow> ''skyrimSpecialEdition''),
       getDisplayNameForGame = (\<lambda>g. case g of fallout4 \<Rightarrow> ''Fallout 4'' | skyrim \<Rightarrow> ''Skyrim''
                        | skyrimSpecialEdition \<Rightarrow> ''Skyrim Special Edition''),
       getShortDisplayNameForGame = (\<lambda>g. case g of fallout4 \<Rightarrow> ''Fallout 4'' | skyrim \<Rightarrow> ''Skyrim''
                        | skyrimSpecialEdition \<Rightarrow> ''Skyrim SE''),
       getScriptExtenderName = (\<lambda>g. case g of fallout4 \<Rightarrow> ''F4SE'' | skyrim \<Rightarrow> ''SKSE''
                        | skyrimSpecialEdition \<Rightarrow> ''SKSE''),
       getScriptExtenderUrl = (\<lambda>g. case g of fallout4 \<Rightarrow> ''https://f4se.silverlock.org/''
                        | skyrim \<Rightarrow> ''https://skse.silverlock.org/''
                        | skyrimSpecialEdition \<Rightarrow> ''https://skse.silverlock.org/''),
       toCommandLineArgs = (\<lambda>toolArguments. []),
       getGameIsRunning = (\<lambda>g. Inr False),
       inDevelopmentEnvironment = True,
       getInstallState = (\<lambda>g. Inr notInstalled),
       config = Inr (\<lambda>g. None),
       infos = (\<lambda>g. Inl (Error ''no Creation Kit'')),
       getLanguageClientHost = (\<lambda>g. Inr False),
       showWarningMessage = (\<lambda>message items. Inr None),
       showInformationMessage = (\<lambda>message items. Inr None),
       asAbsolutePath = (\<lambda>p. ''/extension/'' @ p),
       path_join = join ''/'',
       exists = (\<lambda>p. p = ''C:/Games/Fallout 4''),
       registry_get = (\<lambda>key name. Inl (Error ''registry entry not found'')),
       process_arch = ''x64'',
       VSCODE_PID = 4242 \<rparr>"

definition exampleSession :: "PapyrusGame \<Rightarrow> IPapyrusDebugSession" where
  "exampleSession g =
     \<lparr> configuration =
         \<lparr> game = g, DebugConfiguration.port = None, DebugConfiguration.projectPath = None,
           noop = False \<rparr> \<rparr>"

section \<open>Properties of the function header node\<close>

text \<open>
  C1. The claim asks that \<open>CreateRed\<close> succeed on every function header node. The code does
  the opposite: for every node, every parent and every position the call ends in
  \<open>NotImplementedException\<close> and no red node is returned.
\<close>

theorem CreateRed_not_implemented:
  "CreateRed node parent position = Inl NotImplementedException"
  by (simp add: CreateRed_def)

lemma ToList_foreach_yield:
  "ToList (foreach_yield ps rest) =
     (case ToList rest of
        Inl e \<Rightarrow> Inl e
      | Inr xs \<Rightarrow> Inr (map (map_option FunctionParameterNode) ps @ xs))"
  by (induction ps) (simp_all split: sum.splits)

text \<open>
  C2. For a function header node whose parameter list holds \<open>n\<close> parameters, enumerating the
  children to the end yields \<open>5 + n\<close> entries: the return-type slot, the keyword, the name,
  the open delimiter, the parameters in their order and the close delimiter. The return-type
  slot is the first entry whatever it holds; an absent one is yielded as it was stored and is
  not skipped.
\<close>

theorem ChildrenInternal_order:
  assumes "Parameters node = Some ps"
  shows "ToList (ChildrenInternal node) =
           Inr ([map_option TypeIdentifierNode (TypeIdentifier node),
                 map_option TokenNode (FunctionOrEventKeyword node),
                 map_option ExpressionNode (Identifier node),
                 map_option TokenNode (OpenParen node)]
                @ map (map_option FunctionParameterNode) ps
                @ [map_option TokenNode (CloseParen node)])
         \<and> (\<exists>children. ToList (ChildrenInternal node) = Inr children
               \<and> length children = 5 + length ps)"
  using assms by (simp add: ChildrenInternal_def ToList_foreach_yield)

theorem ChildrenInternal_order_witness:
  "ToList (ChildrenInternal
      \<lparr> TypeIdentifier = (None :: string option),
        FunctionOrEventKeyword = Some ''Function'',
        Identifier = Some ''Foo'',
        OpenParen = Some ''('',
        Parameters = Some [Some ''int a'', Some ''int b = 1''],
        CloseParen = Some '')'' \<rparr>)
   = Inr [None, Some (TokenNode ''Function''), Some (ExpressionNode ''Foo''),
          Some (TokenNode ''(''),
          Some (FunctionParameterNode ''int a''), Some (FunctionParameterNode ''int b = 1''),
          Some (TokenNode '')'')]"
  using ChildrenInternal_order [of
      "\<lparr> TypeIdentifier = (None :: string option),
        FunctionOrEventKeyword = Some ''Function'',
        Identifier = Some ''Foo'',
        OpenParen = Some ''('',
        Parameters = Some [Some ''int a'', Some ''int b = 1''],
        CloseParen = Some '')'' \<rparr>" "[Some ''int a'', Some ''int b = 1'']"]
  by simp

text \<open>A null parameter list ends the enumeration with an exception after four entries.\<close>

lemma ChildrenInternal_null_parameters:
  "Parameters node = None \<Longrightarrow> ToList (ChildrenInternal node) = Inl NullReferenceException"
  by (simp add: ChildrenInternal_def)

text \<open>
  C5. The effecting dispatch of a function header node on a visitor runs the visitor's handler
  for function headers on that node, once and nothing else: under the recording visitor the
  list of invoked handlers grows by the single entry \<open>FunctionHeader\<close>. The generic dispatch
  returns what the function header handler of its visitor returns. The two agree: the
  effecting dispatch on the visitor that drops the results of a generic visitor leaves what
  the generic dispatch leaves, without the result.
\<close>

theorem Accept_dispatch:
  "Accept node (Some v) s = Visit_FunctionHeaderSyntax v node s
   \<and> Accept node (Some (recording v)) (s, calls) =
       (case Visit_FunctionHeaderSyntax v node s of
          Inl e \<Rightarrow> Inl e
        | Inr s' \<Rightarrow> Inr (s', calls @ [FunctionHeader]))
   \<and> AcceptT node (Some w) s = VisitT_FunctionHeaderSyntax w node s
   \<and> Accept node (Some (discarding w)) s = map_sum id snd (AcceptT node (Some w) s)"
  by (simp add: Accept_def AcceptT_def recording_def discarding_def)

text \<open>
  C6. The constructor of the function header node returns a node for every combination of
  arguments, null ones included, and each slot of that node holds the argument given for it.
\<close>

theorem FunctionHeaderSyntax_ctor_total:
  "\<exists>node. FunctionHeaderSyntax_ctor typeIdentifier functionorEventKeyword identifier openParen
             parameters closeParen = Inr node
     \<and> TypeIdentifier node = typeIdentifier
     \<and> FunctionOrEventKeyword node = functionorEventKeyword
     \<and> Identifier node = identifier
     \<and> OpenParen node = openParen
     \<and> Parameters node = parameters
     \<and> CloseParen node = closeParen"
  by (simp add: FunctionHeaderSyntax_ctor_def)

text \<open>
  C7. Every function header node reports the kind \<open>FunctionHeader\<close>. The kind depends on
  nothing a node holds, so no two nodes and no two moments differ in it.
\<close>

theorem Kind_FunctionHeader:
  "Kind node = FunctionHeader \<and> Kind node = Kind node'"
  by (simp add: Kind_def)

section \<open>Properties of the green tree widths\<close>

lemma width_ok_make_green:
  "list_all width_ok children \<Longrightarrow> width_ok (make_green kind children)"
  by (simp add: make_green_def)

lemma width_ok_splice:
  "width_ok old \<Longrightarrow> width_ok new \<Longrightarrow> width_ok (splice path new old)"
proof (induction path arbitrary: old)
  case Nil
  then show ?case by simp
next
  case (Cons i path)
  show ?case
  proof (cases old)
    case (GreenToken kind str)
    with Cons.prems show ?thesis by simp
  next
    case (GreenInner kind children cached)
    show ?thesis
    proof (cases "i < length children")
      case True
      from Cons.prems(1) GreenInner have all: "list_all width_ok children" by simp
      with True have "width_ok (children ! i)" by (simp add: list_all_length)
      then have "width_ok (splice path new (children ! i))"
        using Cons.IH Cons.prems(2) by blast
      with all have "list_all width_ok (children[i := splice path new (children ! i)])"
        by (auto simp: list_all_iff dest: set_update_subset_insert [THEN subsetD])
      then show ?thesis using GreenInner True by (simp add: width_ok_make_green)
    next
      case False
      with GreenInner Cons.prems(1) show ?thesis by simp
    qed
  qed
qed

lemma produced_width_ok: "produced t \<Longrightarrow> width_ok t"
proof (induction rule: produced.induct)
  case (token kind str)
  show ?case by simp
next
  case (construct children kind)
  then show ?case by (simp add: width_ok_make_green list_all_iff)
next
  case (share kind children cached c)
  then show ?case by (simp add: list_all_iff)
next
  case (reparse old new path)
  then show ?case by (simp add: width_ok_splice)
qed

text \<open>With the width equation in place, the width of a tree is the length of its text.\<close>

lemma width_full_text: "width_ok t \<Longrightarrow> width t = length (full_text t)"
proof (induction t)
  case (GreenToken kind str)
  show ?case by simp
next
  case (GreenInner kind children cached)
  then have "\<forall>c \<in> set children. width c = length (full_text c)"
    by (simp add: list_all_iff)
  then have "map width children = map (length \<circ> full_text) children" by simp
  with GreenInner.prems show ?case by (simp add: length_concat comp_def)
qed

text \<open>
  C4. In every green node that construction, sharing and reparse can produce, the cached
  width is the sum of the widths of the node's children.
\<close>

theorem width_invariant:
  assumes "produced (GreenInner kind children cached)"
  shows "cached = sum_list (map width children)"
  using produced_width_ok [OF assms] by simp

theorem width_invariant_witness:
  "produced (GreenInner FunctionHeader
       [GreenToken (OtherKind 0) ''Function '', GreenToken (OtherKind 1) ''Bar''] 12)
   \<and> (12::nat) = sum_list (map width
       [GreenToken (OtherKind 0) ''Function '', GreenToken (OtherKind 1) ''Bar''])"
proof -
  let ?kw = "GreenToken (OtherKind 0) ''Function ''"
  let ?old = "make_green FunctionHeader [?kw, GreenToken (OtherKind 1) ''Foo(''] "
  let ?new = "GreenToken (OtherKind 1) ''Bar''"
  have "produced ?old" by (rule produced.construct) (simp add: produced.token)
  moreover have "produced ?new" by (rule produced.token)
  ultimately have "produced (splice [1] ?new ?old)" by (rule produced.reparse)
  moreover have "splice [1] ?new ?old = GreenInner FunctionHeader [?kw, ?new] 12"
    by (simp add: make_green_def)
  ultimately have p: "produced (GreenInner FunctionHeader [?kw, ?new] 12)" by simp
  from p width_invariant [OF p] show ?thesis by blast
qed

section \<open>Properties of the path resolver and of the descriptor factory\<close>

lemma await_resolve [simp]: "await (resolve x) f t = f x t"
  by (simp add: await_def resolve_def)

lemma await_reject [simp]: "await (reject e) f t = (Inl e, t)"
  by (simp add: await_def reject_def)

lemma await_call_Inr [simp]: "await (call ev (Inr x)) f t = f x (t @ [ev])"
  by (simp add: await_def call_def)

lemma await_call_Inl [simp]: "await (call ev (Inl e)) f t = (Inl e, t @ [ev])"
  by (simp add: await_def call_def)

lemma resolve_apply [simp]: "resolve x t = (Inr x, t)"
  by (simp add: resolve_def)

lemma reject_apply [simp]: "reject e t = (Inl e, t)"
  by (simp add: reject_def)

lemma await_outcome:
  "m t = (r, t') \<Longrightarrow> await m f t = (case r of Inl e \<Rightarrow> (Inl e, t') | Inr x \<Rightarrow> f x t')"
  by (simp add: await_def)

lemma await_apply:
  "await m f t = (case m t of (Inl e, t') \<Rightarrow> (Inl e, t') | (Inr x, t') \<Rightarrow> f x t')"
  by (simp add: await_def)

lemma await_assoc: "await (await m f) k = await m (\<lambda>x. await (f x) k)"
  by (rule ext) (simp add: await_def split: prod.splits sum.splits)

lemma registryInstallPath_outcome:
  "registryInstallPath h key t =
     (case registry_get h key ''installed path'' of
        Inl e \<Rightarrow> (Inl e, t @ [RegistryGet key ''installed path''])
      | Inr item \<Rightarrow>
          (Inr (if exists h (regValue item) then Some (Some (regValue item)) else None),
           t @ [RegistryGet key ''installed path'', Exists (regValue item)]))"
  by (simp add: registryInstallPath_def split: sum.splits)

lemma registry_try_outcome:
  "try_catch (registryInstallPath h key) (\<lambda>_. resolve None) t =
     (case registry_get h key ''installed path'' of
        Inl e \<Rightarrow> (Inr None, t @ [RegistryGet key ''installed path''])
      | Inr item \<Rightarrow>
          (Inr (if exists h (regValue item) then Some (Some (regValue item)) else None),
           t @ [RegistryGet key ''installed path'', Exists (regValue item)]))"
  by (simp add: try_catch_def registryInstallPath_outcome split: sum.splits)

text \<open>
  C9. \<open>resolveInstallPath\<close> always returns and never throws. It returns the configured path
  when that exists on disk, and has then asked the host for nothing but that one existence
  check (the registry is not read). Otherwise it reads the registry entry \<open>installed path\<close>
  of the game's key and returns its value when the read succeeds and the value exists on
  disk. Otherwise (the read failed, or the value does not exist) it returns the bundled
  development compilers path when in a development environment and the game is not classic
  Skyrim, and null in every remaining case.
\<close>

theorem resolveInstallPath_result:
  "resolveInstallPath h g installDir t =
     (let development =
            (if inDevelopmentEnvironment h \<and> g \<noteq> skyrim
             then Some (asAbsolutePath h ''../../dependencies/compilers'')
             else None);
          lookup = RegistryGet (registryKey h g) ''installed path''
      in if exists h installDir
         then (Inr (Some installDir), t @ [Exists installDir])
         else
           (case registry_get h (registryKey h g) ''installed path'' of
              Inl e \<Rightarrow> (Inr development, t @ [Exists installDir, lookup])
            | Inr item \<Rightarrow>
                (Inr (if exists h (regValue item) then Some (regValue item) else development),
                 t @ [Exists installDir, lookup, Exists (regValue item)])))
   \<and> (\<exists>path t'. resolveInstallPath h g installDir t = (Inr path, t'))"
proof -
  have eq: "resolveInstallPath h g installDir t =
     (let development =
            (if inDevelopmentEnvironment h \<and> g \<noteq> skyrim
             then Some (asAbsolutePath h ''../../dependencies/compilers'')
             else None);
          lookup = RegistryGet (registryKey h g) ''installed path''
      in if exists h installDir
         then (Inr (Some installDir), t @ [Exists installDir])
         else
           (case registry_get h (registryKey h g) ''installed path'' of
              Inl e \<Rightarrow> (Inr development, t @ [Exists installDir, lookup])
            | Inr item \<Rightarrow>
                (Inr (if exists h (regValue item) then Some (regValue item) else development),
                 t @ [Exists installDir, lookup, Exists (regValue item)])))"
  proof (cases "exists h installDir")
    case True
    then show ?thesis by (simp add: resolveInstallPath_def Let_def)
  next
    case False
    then show ?thesis
      by (simp add: resolveInstallPath_def Let_def)
         (simp add: await_apply registry_try_outcome split: sum.splits)
  qed
  then have "\<exists>path t'. resolveInstallPath h g installDir t = (Inr path, t')"
    by (simp add: Let_def split: sum.splits)
  with eq show ?thesis by blast
qed

theorem resolveInstallPath_result_witness:
  "resolveInstallPath exampleHost fallout4 ''C:/Games/Fallout 4'' [] =
     (Inr (Some ''C:/Games/Fallout 4''), [Exists ''C:/Games/Fallout 4''])
   \<and> fst (resolveInstallPath exampleHost skyrimSpecialEdition ''D:/nowhere'' []) =
       Inr (Some ''/extension/../../dependencies/compilers'')
   \<and> fst (resolveInstallPath exampleHost skyrim ''D:/nowhere'' []) = Inr None"
  using resolveInstallPath_result [of exampleHost fallout4 "''C:/Games/Fallout 4''" "[]"]
    resolveInstallPath_result [of exampleHost skyrimSpecialEdition "''D:/nowhere''" "[]"]
    resolveInstallPath_result [of exampleHost skyrim "''D:/nowhere''" "[]"]
  by (simp add: exampleHost_def)

text \<open>
  C8. For a session whose game is neither Fallout 4 nor Skyrim Special Edition,
  \<open>createDebugAdapterDescriptor\<close> throws the "not supported" error, and the list of host
  calls is the one it started with: no install state was asked for and no configuration read.
\<close>

theorem unsupported_game_rejected:
  assumes "game (configuration session) \<noteq> fallout4"
    and "game (configuration session) \<noteq> skyrimSpecialEdition"
  shows "createDebugAdapterDescriptor h session t =
           (Inl (Error ([CHR 0x27] @ gameName h (game (configuration session)) @ [CHR 0x27] @
                        '' is not supported by the Papyrus debugger.'')), t)"
  using assms by (simp add: createDebugAdapterDescriptor_def)

theorem unsupported_game_rejected_witness:
  "createDebugAdapterDescriptor exampleHost (exampleSession skyrim) [] =
     (Inl (Error ([CHR 0x27] @ ''skyrim'' @ [CHR 0x27] @
                  '' is not supported by the Papyrus debugger.'')), [])"
  using unsupported_game_rejected [of "exampleSession skyrim" exampleHost "[]"]
  by (simp add: exampleSession_def exampleHost_def)

text \<open>
  The readiness flow declines when the game is disabled or missing; when the plugin is not
  installed, whatever the user answers; when the plugin has the wrong version and the user
  chooses to update, cancels or dismisses the dialog; and when the game is not running and
  the user does not choose to continue.
\<close>

lemma flow_declines_gameDisabled:
  "getInstallState h g = Inr gameDisabled \<Longrightarrow>
   ensureReadyFlow h g t = (Inr False, t @ [GetInstallState g, ShowGameDisabledMessage g])"
  by (simp add: ensureReadyFlow_def installStateSwitch_def await_assoc)

lemma flow_declines_gameMissing:
  "getInstallState h g = Inr gameMissing \<Longrightarrow>
   ensureReadyFlow h g t = (Inr False, t @ [GetInstallState g, ShowGameMissingMessage g])"
  by (simp add: ensureReadyFlow_def installStateSwitch_def await_assoc)

lemma flow_declines_notInstalled:
  assumes "getInstallState h g = Inr notInstalled"
  shows "fst (ensureReadyFlow h g t) \<noteq> Inr True"
proof -
  let ?message = "''Papyrus debugging support requires a plugin for '' @
                  getDisplayNameForGame h g @ '' Script Extender ('' @
                  getScriptExtenderName h g @
                  '') to be installed. After installation has completed, launch '' @
                  getShortDisplayNameForGame h g @ '' with '' @ getScriptExtenderName h g @
                  '' and wait until the main menu has loaded.''"
  let ?items = "[''Get '' @ getScriptExtenderName h g,
                 ''Install '' @ getScriptExtenderName h g @ '' Plugin'', ''Cancel'']"
  show ?thesis
  proof (cases "showInformationMessage h ?message ?items")
    case (Inl e)
    with assms show ?thesis
      by (simp add: ensureReadyFlow_def installStateSwitch_def Let_def await_assoc)
  next
    case (Inr selected)
    with assms show ?thesis
      by (simp add: ensureReadyFlow_def installStateSwitch_def Let_def await_assoc)
  qed
qed

lemma flow_declines_version_rejected:
  assumes "getInstallState h g = Inr incorrectVersion"
    and "config h = Inr cfg" and "cfg g = Some gameConfig"
    and "\<not> ignoreDebuggerVersion gameConfig"
    and "showWarningMessage h
           (''The Papyrus debugging support '' @ getScriptExtenderName h g @
            '' plugin needs to be updated.'')
           [''Update'', ''Remind Me Later'', ''Cancel''] = Inr selected"
    and "selected = Some ''Update'' \<or> selected = Some ''Cancel'' \<or> selected = None"
  shows "fst (ensureReadyFlow h g t) = Inr False"
  using assms
  by (auto simp: ensureReadyFlow_def installStateSwitch_def property_of_def Let_def await_assoc)

lemma flow_declines_not_running:
  assumes "getInstallState h g = Inr installed"
    and "getGameIsRunning h g = Inr False"
    and "showWarningMessage h
           (''Make sure that '' @ getDisplayNameForGame h g @
            '' is running and is either in-game or at the main menu.'')
           [''Continue'', ''Cancel''] = Inr selected"
    and "selected \<noteq> Some ''Continue''"
  shows "fst (ensureReadyFlow h g t) = Inr False"
  using assms
  by (simp add: ensureReadyFlow_def installStateSwitch_def Let_def await_assoc)

text \<open>
  C10. When the readiness flow, run for the session's supported game, returns false,
  \<open>createDebugAdapterDescriptor\<close> does not throw: it returns the no-op executable and the
  session with \<open>noop\<close> set, and it makes no host call after those of the flow, so the real
  debug tool is not launched.
\<close>

theorem declined_flow_returns_noop:
  assumes "game (configuration session) = fallout4
           \<or> game (configuration session) = skyrimSpecialEdition"
    and "ensureReadyFlow h (game (configuration session)) t = (Inr False, t')"
  shows "createDebugAdapterDescriptor h session t =
           (Inr (noopExecutable,
                 session\<lparr> configuration := (configuration session)\<lparr> noop := True \<rparr> \<rparr>), t')"
  using assms by (auto simp: createDebugAdapterDescriptor_def await_outcome)

theorem declined_flow_returns_noop_witness:
  "fst (ensureReadyFlow exampleHost fallout4 []) = Inr False
   \<and> createDebugAdapterDescriptor exampleHost (exampleSession fallout4) [] =
       (Inr (\<lparr> command = ''node'', args = [''-e'', [CHR 0x22, CHR 0x22]] \<rparr>,
             \<lparr> configuration =
                 \<lparr> game = fallout4, DebugConfiguration.port = None,
                   DebugConfiguration.projectPath = None, noop = True \<rparr> \<rparr>),
        snd (ensureReadyFlow exampleHost fallout4 []))"
proof -
  have declined: "fst (ensureReadyFlow exampleHost fallout4 []) = Inr False"
    by (simp add: ensureReadyFlow_def installStateSwitch_def Let_def exampleHost_def await_assoc)
  then have flow: "ensureReadyFlow exampleHost (game (configuration (exampleSession fallout4))) [] =
                     (Inr False, snd (ensureReadyFlow exampleHost fallout4 []))"
    by (simp add: exampleSession_def prod_eq_iff)
  have supported: "game (configuration (exampleSession fallout4)) = fallout4
                   \<or> game (configuration (exampleSession fallout4)) = skyrimSpecialEdition"
    by (simp add: exampleSession_def)
  from declined declined_flow_returns_noop [OF supported flow] show ?thesis
    by (simp add: exampleSession_def noopExecutable_def)
qed

end
